theory Spec2Isabelle
  imports Complex_Main "HOL-Library.Word" "HOL-Library.Sublist" "HOL-Library.AList"
begin

section \<open>The resilient acquisition layer of ENHANCED\_YAHOO\_FINANCE\_FETCHER.py\<close>

text \<open>
  Conventions of the embedding.
  \<^item> Readings of \<^verbatim>\<open>time.monotonic()\<close> and durations are rational numbers of seconds.
    The methods of the breaker and of the cache take the reading as an argument;
    \<open>fetch_ohlc\<close> reads the clock of its environment, where time passes while the
    provider answers and while the fetcher sleeps.
  \<^item> Counters that the source initialises with 0 and only ever increments or resets
    (\<^verbatim>\<open>failure_count\<close>, \<^verbatim>\<open>hits\<close>, \<^verbatim>\<open>misses\<close>, ...) are natural numbers;
    configured integers are \<open>int\<close>.
  \<^item> The constants imported from \<^verbatim>\<open>config\<close> are the fields of the record \<open>config\<close>.
  \<^item> Logging is not modelled.
\<close>

subsection \<open>Configuration\<close>

record config =
  retry_attempts :: int                 \<comment> \<open>\<^verbatim>\<open>YFINANCE_RETRY_ATTEMPTS\<close>\<close>
  retry_delay :: rat                    \<comment> \<open>\<^verbatim>\<open>YFINANCE_RETRY_DELAY\<close>\<close>
  retry_max_delay :: rat                \<comment> \<open>\<^verbatim>\<open>YFINANCE_RETRY_MAX_DELAY\<close>\<close>
  retry_jitter_enabled :: bool          \<comment> \<open>\<^verbatim>\<open>YFINANCE_RETRY_JITTER_ENABLED\<close>\<close>
  rate_limit_backoff_base :: rat        \<comment> \<open>\<^verbatim>\<open>YFINANCE_RATE_LIMIT_BACKOFF\<close>\<close>
  rate_limit_max_backoff :: rat         \<comment> \<open>\<^verbatim>\<open>YFINANCE_RATE_LIMIT_MAX_BACKOFF\<close>\<close>
  cache_ttl :: rat                      \<comment> \<open>\<^verbatim>\<open>YFINANCE_CACHE_TTL\<close>\<close>
  cache_enabled :: bool                 \<comment> \<open>\<^verbatim>\<open>YFINANCE_CACHE_ENABLED\<close>\<close>
  cache_validation :: bool              \<comment> \<open>\<^verbatim>\<open>YFINANCE_CACHE_VALIDATION\<close>\<close>
  validate_ohlc_relationships :: bool   \<comment> \<open>\<^verbatim>\<open>VALIDATE_OHLC_RELATIONSHIPS\<close>\<close>
  validate_data_freshness :: bool       \<comment> \<open>\<^verbatim>\<open>VALIDATE_DATA_FRESHNESS\<close>\<close>
  validate_no_duplicates :: bool        \<comment> \<open>\<^verbatim>\<open>VALIDATE_NO_DUPLICATES\<close>\<close>
  validate_no_nan_values :: bool        \<comment> \<open>\<^verbatim>\<open>VALIDATE_NO_NAN_VALUES\<close>\<close>
  validate_volume_positive :: bool      \<comment> \<open>\<^verbatim>\<open>VALIDATE_VOLUME_POSITIVE\<close>\<close>
  freshness_max_age_seconds :: rat      \<comment> \<open>\<^verbatim>\<open>DATA_FRESHNESS_MAX_AGE_SECONDS\<close>\<close>
  freshness_min_age_seconds :: rat      \<comment> \<open>\<^verbatim>\<open>DATA_FRESHNESS_MIN_AGE_SECONDS\<close>\<close>
  circuit_breaker_enabled :: bool       \<comment> \<open>\<^verbatim>\<open>CIRCUIT_BREAKER_ENABLED\<close>\<close>
  circuit_breaker_threshold :: int      \<comment> \<open>\<^verbatim>\<open>CIRCUIT_BREAKER_THRESHOLD\<close>\<close>
  circuit_breaker_reset_interval :: rat \<comment> \<open>\<^verbatim>\<open>CIRCUIT_BREAKER_RESET_INTERVAL\<close>\<close>

subsection \<open>CircuitBreaker\<close>

text \<open>The class \<^verbatim>\<open>CircuitBreaker\<close> is the record \<open>breaker\<close>.\<close>

record breaker =
  threshold :: int
  reset_interval :: rat
  failure_count :: nat
  last_failure_time :: "rat option"
  is_open :: bool

definition new_circuit_breaker :: "int \<Rightarrow> rat \<Rightarrow> breaker" where
  "new_circuit_breaker th ri =
     \<lparr>threshold = th, reset_interval = ri, failure_count = 0,
      last_failure_time = None, is_open = False\<rparr>"

definition record_success :: "breaker \<Rightarrow> breaker" where
  "record_success cb = cb\<lparr>failure_count := 0, is_open := False\<rparr>"

text \<open>\<open>record_failure now cb\<close>: the argument \<open>now\<close> is the reading of the monotonic clock.\<close>

definition record_failure :: "rat \<Rightarrow> breaker \<Rightarrow> breaker" where
  "record_failure now cb =
     (let cb1 = cb\<lparr>failure_count := failure_count cb + 1, last_failure_time := Some now\<rparr>
      in if int (failure_count cb1) \<ge> threshold cb1 then cb1\<lparr>is_open := True\<rparr> else cb1)"

text \<open>
  \<open>can_attempt now cb\<close> returns the answer and the breaker as the call leaves it.
  \<^verbatim>\<open>if self.last_failure_time:\<close> tests the truth value of an optional float: both
  \<^verbatim>\<open>None\<close> and \<^verbatim>\<open>0.0\<close> are false.
\<close>

definition can_attempt :: "rat \<Rightarrow> breaker \<Rightarrow> bool \<times> breaker" where
  "can_attempt now cb =
     (if \<not> is_open cb then (True, cb)
      else (case last_failure_time cb of
              None \<Rightarrow> (False, cb)
            | Some t \<Rightarrow>
                if t \<noteq> 0 \<and> now - t \<ge> reset_interval cb
                then (True, cb\<lparr>failure_count := 0, is_open := False\<rparr>)
                else (False, cb)))"

subsection \<open>Backoff policy\<close>

text \<open>
  \<open>calculate_backoff_delay cfg jitter attempt is_rate_limit\<close>: \<open>jitter\<close> is the value that
  \<^verbatim>\<open>random.uniform(0, 1)\<close> returns in this call; it is only used when jitter is enabled.
  Python's \<^verbatim>\<open>2 ** (attempt - 1)\<close> is \<open>power_int\<close>: a negative exponent gives a fraction.
\<close>

definition calculate_backoff_delay :: "config \<Rightarrow> rat \<Rightarrow> int \<Rightarrow> bool \<Rightarrow> rat" where
  "calculate_backoff_delay cfg jitter attempt is_rate_limit =
     (let (base_delay, max_delay) =
            (if is_rate_limit
             then (rate_limit_backoff_base cfg * power_int 2 (attempt - 1), rate_limit_max_backoff cfg)
             else (retry_delay cfg * power_int 2 (attempt - 1), retry_max_delay cfg));
          delay = min base_delay max_delay
      in if retry_jitter_enabled cfg then delay + jitter else delay)"

subsection \<open>Bars and frames\<close>

text \<open>
  A price cell is a double: a finite value, an infinity or NaN. Finite values are
  rationals; only comparisons, minima and maxima are taken of them, which are exact.
  A comparison with NaN is false.
\<close>

datatype fval = Fin rat | PInf | NInf | NaN

fun flt :: "fval \<Rightarrow> fval \<Rightarrow> bool" where
  "flt NaN _ = False"
| "flt _ NaN = False"
| "flt (Fin a) (Fin b) = (a < b)"
| "flt (Fin _) PInf = True"
| "flt (Fin _) NInf = False"
| "flt NInf NInf = False"
| "flt NInf _ = True"
| "flt PInf _ = False"

definition fmin :: "fval \<Rightarrow> fval \<Rightarrow> fval" where
  "fmin a b = (if flt b a then b else a)"

definition fmax :: "fval \<Rightarrow> fval \<Rightarrow> fval" where
  "fmax a b = (if flt a b then b else a)"

text \<open>
  \<^verbatim>\<open>Series.min()\<close> and \<^verbatim>\<open>Series.max()\<close> skip NaN; on a column with no other value they
  give NaN.
\<close>

definition series_min :: "fval list \<Rightarrow> fval" where
  "series_min xs = (case filter (\<lambda>x. x \<noteq> NaN) xs of [] \<Rightarrow> NaN | y # ys \<Rightarrow> fold fmin ys y)"

definition series_max :: "fval list \<Rightarrow> fval" where
  "series_max xs = (case filter (\<lambda>x. x \<noteq> NaN) xs of [] \<Rightarrow> NaN | y # ys \<Rightarrow> fold fmax ys y)"

text \<open>
  A row holds the six cells of the canonical schema. The timestamp is a naive UTC instant
  in seconds; the volume column has dtype int64, as the provider delivers it, so it wraps
  on overflow, compares signed and has no missing value.
\<close>

record bar =
  timestamp :: rat
  open_price :: fval     \<comment> \<open>column \<^verbatim>\<open>open\<close>\<close>
  high :: fval
  low :: fval
  close :: fval
  volume :: "64 word"

text \<open>
  A frame is its list of column labels and its rows. A cell of a row whose column label is
  not among \<open>columns\<close> does not exist in the frame and is never read.
\<close>

record data_frame =
  columns :: "string list"
  rows :: "bar list"

text \<open>\<^verbatim>\<open>df.empty\<close>: some axis has length 0.\<close>

definition empty_frame :: "data_frame \<Rightarrow> bool" where
  "empty_frame df = (columns df = [] \<or> rows df = [])"

definition required_cols :: "string list" where
  "required_cols = [''timestamp'', ''open'', ''high'', ''low'', ''close'', ''volume'']"

subsection \<open>DataValidationReport\<close>

text \<open>
  An error or warning line is the f-string that builds it together with the values it
  interpolates:
  \<^item> \<open>EmptyDataFrame\<close>: \<^verbatim>\<open>"DataFrame is empty"\<close>
  \<^item> \<open>MissingColumns cs\<close>: \<^verbatim>\<open>f"Missing columns: {missing_cols}"\<close>
  \<^item> \<open>HighLtLow n\<close>: \<^verbatim>\<open>f"{invalid_hl} bars with High < Low"\<close>
  \<^item> \<open>HighLtOpen n\<close>: \<^verbatim>\<open>f"{invalid_h_open} bars with High < Open"\<close>
  \<^item> \<open>HighLtClose n\<close>: \<^verbatim>\<open>f"{invalid_h_close} bars with High < Close"\<close>
  \<^item> \<open>LowGtOpen n\<close>: \<^verbatim>\<open>f"{invalid_l_open} bars with Low > Open"\<close>
  \<^item> \<open>LowGtClose n\<close>: \<^verbatim>\<open>f"{invalid_l_close} bars with Low > Close"\<close>
  \<^item> \<open>NaNValues n counts\<close>: \<^verbatim>\<open>f"Found {nan_counts.sum()} NaN values: {nan_counts.to_dict()}"\<close>
  \<^item> \<open>InfValues n\<close>: \<^verbatim>\<open>f"Found {inf_mask.sum()} inf values"\<close>
  \<^item> \<open>NegativeVolume n\<close>: \<^verbatim>\<open>f"{negative_volume} bars with negative volume"\<close>
  \<^item> \<open>DuplicateTimestamps n\<close>: \<^verbatim>\<open>f"{duplicate_timestamps} duplicate timestamps"\<close>
  \<^item> \<open>DataStale age\<close>: \<^verbatim>\<open>f"Data is stale: {age_seconds:.0f}s old"\<close>
  \<^item> \<open>DataFromFuture age\<close>: \<^verbatim>\<open>f"Data from future: {age_seconds:.1f}s"\<close>
\<close>

datatype message =
    EmptyDataFrame
  | MissingColumns "string list"
  | HighLtLow nat
  | HighLtOpen nat
  | HighLtClose nat
  | LowGtOpen nat
  | LowGtClose nat
  | NaNValues nat "(string \<times> nat) list"
  | InfValues nat
  | NegativeVolume nat
  | DuplicateTimestamps nat
  | DataStale rat
  | DataFromFuture rat

datatype stat_value =
    IntStat nat
  | RangeStat "(string \<times> fval) list"
  | VolumeStat "64 word"

record report =
  is_valid :: bool
  errors :: "message list"
  warnings :: "message list"
  stats :: "(string \<times> stat_value) list"   \<comment> \<open>a dict, in insertion order\<close>

definition new_report :: report where
  "new_report = \<lparr>is_valid = True, errors = [], warnings = [], stats = []\<rparr>"

definition add_error :: "message \<Rightarrow> report \<Rightarrow> report" where
  "add_error e r = r\<lparr>is_valid := False, errors := errors r @ [e]\<rparr>"

definition add_warning :: "message \<Rightarrow> report \<Rightarrow> report" where
  "add_warning m r = r\<lparr>warnings := warnings r @ [m]\<rparr>"

definition add_stat :: "string \<Rightarrow> stat_value \<Rightarrow> report \<Rightarrow> report" where
  "add_stat k v r = r\<lparr>stats := AList.update k v (stats r)\<rparr>"

subsection \<open>The validator\<close>

text \<open>\<^verbatim>\<open>(mask).sum()\<close>: the number of rows where the mask holds.\<close>

definition count_where :: "('a \<Rightarrow> bool) \<Rightarrow> 'a list \<Rightarrow> nat" where
  "count_where P xs = length (filter P xs)"

definition check_relationships :: "data_frame \<Rightarrow> report \<Rightarrow> report" where
  "check_relationships df r0 =
     (let invalid_hl = count_where (\<lambda>b. flt (high b) (low b)) (rows df);
          r1 = (if invalid_hl > 0 then add_error (HighLtLow invalid_hl) r0 else r0);
          invalid_h_open = count_where (\<lambda>b. flt (high b) (open_price b)) (rows df);
          invalid_h_close = count_where (\<lambda>b. flt (high b) (close b)) (rows df);
          r2 = (if invalid_h_open > 0 then add_error (HighLtOpen invalid_h_open) r1 else r1);
          r3 = (if invalid_h_close > 0 then add_error (HighLtClose invalid_h_close) r2 else r2);
          invalid_l_open = count_where (\<lambda>b. flt (open_price b) (low b)) (rows df);
          invalid_l_close = count_where (\<lambda>b. flt (close b) (low b)) (rows df);
          r4 = (if invalid_l_open > 0 then add_error (LowGtOpen invalid_l_open) r3 else r3);
          r5 = (if invalid_l_close > 0 then add_error (LowGtClose invalid_l_close) r4 else r4)
      in r5)"

definition is_inf :: "fval \<Rightarrow> bool" where
  "is_inf x = (x = PInf \<or> x = NInf)"

text \<open>The int64 volume column has no missing value: its NaN count is 0.\<close>

definition check_nan_values :: "data_frame \<Rightarrow> report \<Rightarrow> report" where
  "check_nan_values df r0 =
     (let nan_counts =
            [(''open'', count_where (\<lambda>b. open_price b = NaN) (rows df)),
             (''high'', count_where (\<lambda>b. high b = NaN) (rows df)),
             (''low'', count_where (\<lambda>b. low b = NaN) (rows df)),
             (''close'', count_where (\<lambda>b. close b = NaN) (rows df)),
             (''volume'', 0)];
          r1 = (if sum_list (map snd nan_counts) > 0
                then add_error (NaNValues (sum_list (map snd nan_counts)) nan_counts) r0 else r0);
          inf_mask =
            [count_where (\<lambda>b. is_inf (open_price b)) (rows df),
             count_where (\<lambda>b. is_inf (high b)) (rows df),
             count_where (\<lambda>b. is_inf (low b)) (rows df),
             count_where (\<lambda>b. is_inf (close b)) (rows df)];
          r2 = (if sum_list inf_mask > 0 then add_error (InfValues (sum_list inf_mask)) r1 else r1)
      in r2)"

definition check_volume :: "data_frame \<Rightarrow> report \<Rightarrow> report" where
  "check_volume df r0 =
     (let negative_volume = count_where (\<lambda>b. sint (volume b) < 0) (rows df)
      in if negative_volume > 0 then add_error (NegativeVolume negative_volume) r0 else r0)"

text \<open>\<^verbatim>\<open>Series.duplicated()\<close> marks every occurrence of a value after its first.\<close>

fun duplicated :: "'a list \<Rightarrow> 'a list \<Rightarrow> bool list" where
  "duplicated seen [] = []"
| "duplicated seen (x # xs) = (x \<in> set seen) # duplicated (x # seen) xs"

definition check_duplicates :: "data_frame \<Rightarrow> report \<Rightarrow> report" where
  "check_duplicates df r0 =
     (let duplicate_timestamps = count_where id (duplicated [] (map timestamp (rows df)))
      in if duplicate_timestamps > 0 then add_error (DuplicateTimestamps duplicate_timestamps) r0
         else r0)"

text \<open>
  \<^verbatim>\<open>df['timestamp'].max()\<close>; on a column without values it is NaT, written \<open>None\<close>, and
  every comparison with the age computed from NaT is false.
\<close>

definition timestamp_max :: "rat list \<Rightarrow> rat option" where
  "timestamp_max ts = (case ts of [] \<Rightarrow> None | t # ts' \<Rightarrow> Some (fold max ts' t))"

text \<open>\<open>utcnow\<close> is the reading of \<^verbatim>\<open>datetime.utcnow()\<close>, in seconds.\<close>

definition check_freshness :: "config \<Rightarrow> rat \<Rightarrow> data_frame \<Rightarrow> report \<Rightarrow> report" where
  "check_freshness cfg utcnow df r0 =
     (case timestamp_max (map timestamp (rows df)) of
        None \<Rightarrow> r0
      | Some latest_timestamp \<Rightarrow>
          (let age_seconds = utcnow - latest_timestamp;
               r1 = (if age_seconds > freshness_max_age_seconds cfg
                     then add_warning (DataStale age_seconds) r0 else r0);
               r2 = (if age_seconds < freshness_min_age_seconds cfg
                     then add_error (DataFromFuture age_seconds) r1 else r1)
           in r2))"

definition add_statistics :: "data_frame \<Rightarrow> report \<Rightarrow> report" where
  "add_statistics df r0 =
     (let r1 = add_stat ''row_count'' (IntStat (length (rows df))) r0;
          r2 = add_stat ''price_range'' (RangeStat
                 [(''open_min'', series_min (map open_price (rows df))),
                  (''open_max'', series_max (map open_price (rows df))),
                  (''close_min'', series_min (map close (rows df))),
                  (''close_max'', series_max (map close (rows df)))]) r1;
          r3 = add_stat ''volume_total'' (VolumeStat (sum_list (map volume (rows df)))) r2
      in r3)"

definition validate_ohlc_data :: "config \<Rightarrow> rat \<Rightarrow> data_frame \<Rightarrow> report" where
  "validate_ohlc_data cfg utcnow df =
     (let report = new_report in
      if empty_frame df then add_error EmptyDataFrame report
      else
        let missing_cols = filter (\<lambda>col. col \<notin> set (columns df)) required_cols in
        if missing_cols \<noteq> [] then add_error (MissingColumns missing_cols) report
        else
          let r1 = (if validate_ohlc_relationships cfg then check_relationships df report
                    else report);
              r2 = (if validate_no_nan_values cfg then check_nan_values df r1 else r1);
              r3 = (if validate_volume_positive cfg then check_volume df r2 else r2);
              r4 = (if validate_no_duplicates cfg then check_duplicates df r3 else r3);
              r5 = (if validate_data_freshness cfg then check_freshness cfg utcnow df r4 else r4)
          in add_statistics df r5)"

subsection \<open>The object store\<close>

text \<open>
  Frames are mutable objects that the fetcher, its cache and the caller may share, so a
  frame variable of the source is a reference into a store. \<^verbatim>\<open>DataFrame.copy()\<close> (deep by
  default) allocates a new object with the same content.
\<close>

type_synonym ref = nat

text \<open>
  The environment of a call: the monotonic clock, the wall clock as an offset from it,
  the provider (what the n-th call of \<^verbatim>\<open>Ticker(instrument).history(period, interval)\<close>
  takes in time and gives), the random source of the jitter, and the store.
  An unnamed index is one named \<^verbatim>\<open>index\<close>, which is the label \<^verbatim>\<open>reset_index()\<close>
  gives it.
\<close>

record raw_frame =
  index_name :: string
  raw_columns :: "string list"
  raw_rows :: "bar list"

datatype response = Fails string | Gives raw_frame

record world =
  mono :: rat
  utc_offset :: rat
  provider :: "nat \<Rightarrow> string \<Rightarrow> string \<Rightarrow> string \<Rightarrow> rat \<times> response"
  calls :: nat
  rand :: "nat \<Rightarrow> rat"
  draws :: nat
  heap :: "ref \<Rightarrow> data_frame"
  next_ref :: ref

definition alloc :: "data_frame \<Rightarrow> world \<Rightarrow> ref \<times> world" where
  "alloc df w = (next_ref w, w\<lparr>heap := (heap w)(next_ref w := df), next_ref := Suc (next_ref w)\<rparr>)"

definition copy_frame :: "ref \<Rightarrow> world \<Rightarrow> ref \<times> world" where
  "copy_frame r w = alloc (heap w r) w"

text \<open>An exception of class \<^verbatim>\<open>Exception\<close>, with its \<^verbatim>\<open>str()\<close>.\<close>

datatype exn = Exception string

text \<open>\<^verbatim>\<open>time.sleep\<close> raises ValueError on a negative argument.\<close>

definition sleep :: "rat \<Rightarrow> world \<Rightarrow> exn + world" where
  "sleep d w = (if d < 0 then Inl (Exception ''sleep length must be non-negative'')
                else Inr (w\<lparr>mono := mono w + d\<rparr>))"

text \<open>
  The delay of a retry, drawing the jitter from the random source when it is enabled
  (\<^verbatim>\<open>random.uniform\<close> is not called otherwise).
\<close>

definition backoff_delay :: "config \<Rightarrow> int \<Rightarrow> bool \<Rightarrow> world \<Rightarrow> rat \<times> world" where
  "backoff_delay cfg attempt is_rate_limit w =
     (if retry_jitter_enabled cfg
      then (calculate_backoff_delay cfg (rand w (draws w)) attempt is_rate_limit,
            w\<lparr>draws := draws w + 1\<rparr>)
      else (calculate_backoff_delay cfg 0 attempt is_rate_limit, w))"

subsection \<open>Cache\<close>

record cache_entry =
  data :: ref
  metadata :: "(string \<times> string) list"
  creation_time :: rat
  hit_count :: nat
  validation_passed :: bool

text \<open>\<^verbatim>\<open>CacheEntry.__init__\<close>: the entry keeps a copy of the frame it is given.\<close>

definition cache_entry_init :: "ref \<Rightarrow> (string \<times> string) list \<Rightarrow> world \<Rightarrow> cache_entry \<times> world" where
  "cache_entry_init df md w =
     (let (c, w1) = copy_frame df w
      in (\<lparr>data = c, metadata = md, creation_time = mono w1, hit_count = 0,
           validation_passed = False\<rparr>, w1))"

record cache_statistics =
  hits :: nat
  misses :: nat
  invalidations :: nat
  evictions :: nat

definition new_cache_statistics :: cache_statistics where
  "new_cache_statistics = \<lparr>hits = 0, misses = 0, invalidations = 0, evictions = 0\<rparr>"

subsection \<open>YahooFinanceFetcherEnhanced\<close>

record fetcher =
  instrument :: string
  cache :: "cache_entry option"
  cache_stats :: cache_statistics
  circuit_breaker :: "breaker option"
  rate_limit_backoff :: rat
  rate_limit_until :: rat
  last_fetch_time :: "rat option"

definition new_fetcher :: "config \<Rightarrow> string \<Rightarrow> fetcher" where
  "new_fetcher cfg instr =
     \<lparr>instrument = instr, cache = None, cache_stats = new_cache_statistics,
      circuit_breaker =
        (if circuit_breaker_enabled cfg
         then Some (new_circuit_breaker (circuit_breaker_threshold cfg)
                      (circuit_breaker_reset_interval cfg))
         else None),
      rate_limit_backoff = 0, rate_limit_until = 0, last_fetch_time = None\<rparr>"

definition is_cache_valid :: "config \<Rightarrow> rat \<Rightarrow> fetcher \<Rightarrow> bool \<times> fetcher" where
  "is_cache_valid cfg now f =
     (case cache f of
        None \<Rightarrow> (False, f)
      | Some e \<Rightarrow>
          (let age = now - creation_time e;
               valid = (age < cache_ttl cfg)
           in if \<not> valid
              then (valid, f\<lparr>cache_stats :=
                      (cache_stats f)\<lparr>invalidations := invalidations (cache_stats f) + 1\<rparr>\<rparr>)
              else (valid, f)))"

definition count_miss :: "fetcher \<Rightarrow> fetcher" where
  "count_miss f = f\<lparr>cache_stats := (cache_stats f)\<lparr>misses := misses (cache_stats f) + 1\<rparr>\<rparr>"

definition count_hit :: "fetcher \<Rightarrow> fetcher" where
  "count_hit f = f\<lparr>cache_stats := (cache_stats f)\<lparr>hits := hits (cache_stats f) + 1\<rparr>\<rparr>"

text \<open>
  In the last branch the entry exists whenever the validity check has answered true; the
  case of a missing entry is kept as the source's two guards \<^verbatim>\<open>and self.cache\<close>,
  \<^verbatim>\<open>if self.cache\<close> have it.
\<close>

definition should_use_cache :: "config \<Rightarrow> rat \<Rightarrow> fetcher \<Rightarrow> bool \<times> fetcher" where
  "should_use_cache cfg now f =
     (if \<not> cache_enabled cfg then (False, count_miss f)
      else
        let (valid, f1) = is_cache_valid cfg now f in
        if \<not> valid then (False, count_miss f1)
        else (case cache f1 of
                None \<Rightarrow> (True, count_hit f1)
              | Some e \<Rightarrow>
                  if cache_validation cfg \<and> \<not> validation_passed e then (False, count_miss f1)
                  else (True, (count_hit f1)\<lparr>cache := Some (e\<lparr>hit_count := hit_count e + 1\<rparr>)\<rparr>)))"

definition clear_cache :: "fetcher \<Rightarrow> fetcher" where
  "clear_cache f = f\<lparr>cache := None, cache_stats := new_cache_statistics\<rparr>"

subsection \<open>Normalising the provider's frame\<close>

text \<open>\<^verbatim>\<open>str.lower()\<close> on the ASCII labels and messages that occur here.\<close>

definition lower_char :: "char \<Rightarrow> char" where
  "lower_char c =
     (case map_of (zip ''ABCDEFGHIJKLMNOPQRSTUVWXYZ'' ''abcdefghijklmnopqrstuvwxyz'') c of
        None \<Rightarrow> c
      | Some l \<Rightarrow> l)"

definition lower :: "string \<Rightarrow> string" where
  "lower s = map lower_char s"

fun join :: "string \<Rightarrow> string list \<Rightarrow> string" where
  "join sep [] = []"
| "join sep [x] = x"
| "join sep (x # y # ys) = x @ sep @ join sep (y # ys)"

text \<open>The \<^verbatim>\<open>str()\<close> of the KeyError that selecting absent columns raises.\<close>

definition key_error_message :: "string list \<Rightarrow> string" where
  "key_error_message missing =
     [CHR 0x22] @ ''['' @ join '', '' (map (\<lambda>c. [CHR 0x27] @ c @ [CHR 0x27]) missing)
       @ ''] not in index'' @ [CHR 0x22]"

definition raw_empty :: "raw_frame \<Rightarrow> bool" where
  "raw_empty raw = (raw_columns raw = [] \<or> raw_rows raw = [])"

text \<open>
  The steps between the provider's answer and the validator: \<^verbatim>\<open>reset_index()\<close> (which
  raises ValueError when the index label is already a column), lower-casing the labels,
  finding the timestamp column (\<open>Inr None\<close> when there is none), selecting the required
  columns (KeyError when one is absent) and sorting by timestamp.
\<close>

definition normalise :: "raw_frame \<Rightarrow> exn + data_frame option" where
  "normalise raw =
     (if index_name raw \<in> set (raw_columns raw)
      then Inl (Exception (''cannot insert '' @ index_name raw @ '', already exists''))
      else
        let cols = map lower (index_name raw # raw_columns raw) in
        if ''datetime'' \<in> set cols \<or> ''date'' \<in> set cols then
          let cols1 = (if ''timestamp'' \<in> set cols then cols else cols @ [''timestamp'']);
              missing = filter (\<lambda>c. c \<notin> set cols1) required_cols
          in if missing \<noteq> [] then Inl (Exception (key_error_message missing))
             else Inr (Some \<lparr>columns = required_cols,
                             rows = sort_key timestamp (raw_rows raw)\<rparr>)
        else Inr None)"

subsection \<open>fetch\_ohlc\<close>

definition breaker_failure :: "rat \<Rightarrow> fetcher \<Rightarrow> fetcher" where
  "breaker_failure now f = f\<lparr>circuit_breaker := map_option (record_failure now) (circuit_breaker f)\<rparr>"

definition breaker_success :: "fetcher \<Rightarrow> fetcher" where
  "breaker_success f = f\<lparr>circuit_breaker := map_option record_success (circuit_breaker f)\<rparr>"

text \<open>
  How the body of the \<^verbatim>\<open>try\<close> block leaves: by \<^verbatim>\<open>return\<close>, by \<^verbatim>\<open>continue\<close>, or by an
  exception, which the \<^verbatim>\<open>except Exception\<close> clause catches.
\<close>

datatype outcome = Return "ref option \<times> report" | Continue | Raise exn

definition try_body ::
  "config \<Rightarrow> int \<Rightarrow> string \<Rightarrow> string \<Rightarrow> fetcher \<Rightarrow> world \<Rightarrow> outcome \<times> fetcher \<times> world" where
  "try_body cfg attempt period interval f w =
     (let (latency, resp) = provider w (calls w) (instrument f) period interval;
          w1 = w\<lparr>calls := calls w + 1, mono := mono w + latency\<rparr>
      in case resp of
           Fails msg \<Rightarrow> (Raise (Exception msg), f, w1)
         | Gives raw \<Rightarrow>
             if raw_empty raw then
               (if attempt < retry_attempts cfg then
                  (let (delay, w2) = backoff_delay cfg attempt False w1
                   in case sleep delay w2 of
                        Inl e \<Rightarrow> (Raise e, f, w2)
                      | Inr w3 \<Rightarrow> (Continue, f, w3))
                else (Return (None, new_report), breaker_failure (mono w1) f, w1))
             else
               (case normalise raw of
                  Inl e \<Rightarrow> (Raise e, f, w1)
                | Inr None \<Rightarrow> (Return (None, new_report), breaker_failure (mono w1) f, w1)
                | Inr (Some frame) \<Rightarrow>
                    (let (df, w2) = alloc frame w1;
                         report = validate_ohlc_data cfg (mono w2 + utc_offset w2) frame;
                         (f1, w3) =
                           (if cache_enabled cfg then
                              (let (entry, w') = cache_entry_init df
                                      [(''period'', period), (''interval'', interval)] w2
                               in (f\<lparr>cache := Some (entry\<lparr>validation_passed := is_valid report\<rparr>)\<rparr>, w'))
                            else (f, w2));
                         f2 = breaker_success f1;
                         f3 = f2\<lparr>last_fetch_time := Some (mono w3)\<rparr>
                     in (Return (Some df, report), f3, w3))))"

text \<open>\<^verbatim>\<open>"429" in str(e) or "rate" in str(e).lower()\<close>\<close>

definition rate_limit_message :: "string \<Rightarrow> bool" where
  "rate_limit_message msg = (sublist ''429'' msg \<or> sublist ''rate'' (lower msg))"

text \<open>
  The \<^verbatim>\<open>except\<close> clause. It returns the flag \<^verbatim>\<open>is_rate_limited\<close> and the state it
  leaves; an exception raised inside the clause (by \<^verbatim>\<open>time.sleep\<close>) leaves \<^verbatim>\<open>fetch_ohlc\<close>.
\<close>

definition except_clause ::
  "config \<Rightarrow> int \<Rightarrow> bool \<Rightarrow> exn \<Rightarrow> fetcher \<Rightarrow> world \<Rightarrow> exn + (bool \<times> fetcher \<times> world)" where
  "except_clause cfg attempt is_rate_limited e f w =
     (case e of Exception last_error \<Rightarrow>
        (let rl = (is_rate_limited \<or> rate_limit_message last_error) in
         if attempt < retry_attempts cfg then
           (let (delay, w1) = backoff_delay cfg attempt rl w
            in case sleep delay w1 of
                 Inl e' \<Rightarrow> Inl e'
               | Inr w2 \<Rightarrow> Inr (rl, f, w2))
         else
           (let (f1, w1) =
                  (if rl then
                     (let (backoff, w') = backoff_delay cfg attempt True w
                      in (f\<lparr>rate_limit_until := mono w' + backoff\<rparr>, w'))
                   else (f, w))
            in Inr (rl, breaker_failure (mono w1) f1, w1))))"

text \<open>
  The loop \<^verbatim>\<open>for attempt in range(1, YFINANCE_RETRY_ATTEMPTS + 1)\<close>, over the list of
  attempts still to make, and the \<^verbatim>\<open>return None, DataValidationReport()\<close> after it.
\<close>

fun retry_loop ::
  "config \<Rightarrow> string \<Rightarrow> string \<Rightarrow> bool \<Rightarrow> bool \<Rightarrow> fetcher \<Rightarrow> world \<Rightarrow> int list
     \<Rightarrow> exn + ((ref option \<times> report) \<times> fetcher \<times> world)" where
  "retry_loop cfg period interval validate is_rate_limited f w [] =
     Inr ((None, new_report), f, w)"
| "retry_loop cfg period interval validate is_rate_limited f w (attempt # rest) =
     (case try_body cfg attempt period interval f w of
        (Return res, f1, w1) \<Rightarrow> Inr (res, f1, w1)
      | (Continue, f1, w1) \<Rightarrow> retry_loop cfg period interval validate is_rate_limited f1 w1 rest
      | (Raise e, f1, w1) \<Rightarrow>
          (case except_clause cfg attempt is_rate_limited e f1 w1 of
             Inl e' \<Rightarrow> Inl e'
           | Inr (rl, f2, w2) \<Rightarrow> retry_loop cfg period interval validate rl f2 w2 rest))"

text \<open>
  \<open>fetch_ohlc\<close> gives \<open>Inl\<close> when an exception leaves the method, and otherwise the
  returned pair with the fetcher and the environment as the call leaves them. On the
  cache path \<^verbatim>\<open>self.cache.data\<close> raises AttributeError when there is no entry.
  The argument \<open>validate\<close> decides only what is logged: the validator runs and its report
  is returned and cached either way.
\<close>

definition fetch_ohlc ::
  "config \<Rightarrow> string \<Rightarrow> string \<Rightarrow> bool \<Rightarrow> bool \<Rightarrow> fetcher \<Rightarrow> world
     \<Rightarrow> exn + ((ref option \<times> report) \<times> fetcher \<times> world)" where
  "fetch_ohlc cfg period interval use_cache validate f w =
     (let (blocked, f1) =
            (case circuit_breaker f of
               None \<Rightarrow> (False, f)
             | Some cb \<Rightarrow>
                 (let (ok, cb1) = can_attempt (mono w) cb
                  in (\<not> ok, f\<lparr>circuit_breaker := Some cb1\<rparr>)))
      in if blocked then Inr ((None, new_report), f1, w)
         else if rate_limit_until f1 > mono w then Inr ((None, new_report), f1, w)
         else
           let (use, f2) = (if use_cache then should_use_cache cfg (mono w) f1 else (False, f1))
           in if use then
                (case cache f2 of
                   None \<Rightarrow> Inl (Exception ''AttributeError'')
                 | Some entry \<Rightarrow>
                     (let (df, w1) = copy_frame (data entry) w
                      in Inr ((Some df, new_report\<lparr>is_valid := validation_passed entry\<rparr>), f2, w1)))
              else retry_loop cfg period interval validate False f2 w [1..retry_attempts cfg])"

subsection \<open>A configuration for the scenarios\<close>

text \<open>
  The values that \<^verbatim>\<open>config.py\<close> has (three attempts, a base delay of 2 s, a TTL of
  50 s), the rate-limit backoff of the comment in \<^verbatim>\<open>_calculate_backoff_delay\<close> (from
  5 min to 1 h), and for the others the values of the specification's scenarios.
\<close>

definition example_config :: config where
  "example_config =
     \<lparr>retry_attempts = 3, retry_delay = 2, retry_max_delay = 8, retry_jitter_enabled = False,
      rate_limit_backoff_base = 300, rate_limit_max_backoff = 3600,
      cache_ttl = 50, cache_enabled = True, cache_validation = False,
      validate_ohlc_relationships = True, validate_data_freshness = True,
      validate_no_duplicates = True, validate_no_nan_values = True,
      validate_volume_positive = True,
      freshness_max_age_seconds = 300, freshness_min_age_seconds = -60,
      circuit_breaker_enabled = True, circuit_breaker_threshold = 3,
      circuit_breaker_reset_interval = 60\<rparr>"

subsection \<open>Inputs of the scenarios\<close>

text \<open>The bar of the validator scenario, with a timestamp and a volume.\<close>

definition scenario_bar :: bar where
  "scenario_bar = \<lparr>timestamp = 90, open_price = Fin 11, high = Fin 10, low = Fin 12,
                    close = Fin 11, volume = 5\<rparr>"


definition scenario_frame :: data_frame where
  "scenario_frame = \<lparr>columns = required_cols, rows = [scenario_bar]\<rparr>"

text \<open>A breaker with threshold 3 after three failures in a row, at the readings 8, 9, 10.\<close>

definition open_breaker :: breaker where
  "open_breaker = fold record_failure [8, 9, 10] (new_circuit_breaker 3 60)"

text \<open>A fetcher whose cache entry was stored at the reading 0 and did not pass validation.\<close>

definition cached_fetcher :: fetcher where
  "cached_fetcher =
     (new_fetcher example_config ''NQ=F'')
       \<lparr>cache := Some \<lparr>data = 0, metadata = [(''period'', ''1d''), (''interval'', ''1m'')],
                       creation_time = 0, hit_count = 0, validation_passed = False\<rparr>\<rparr>"

text \<open>A caller that checks the cache's validity, or asks whether to use it, at each reading.\<close>

definition validity_checks :: "config \<Rightarrow> rat list \<Rightarrow> fetcher \<Rightarrow> fetcher" where
  "validity_checks cfg ts f = fold (\<lambda>t g. snd (is_cache_valid cfg t g)) ts f"

definition use_checks :: "config \<Rightarrow> rat list \<Rightarrow> fetcher \<Rightarrow> fetcher" where
  "use_checks cfg ts f = fold (\<lambda>t g. snd (should_use_cache cfg t g)) ts f"

text \<open>A caller that overwrites the frame object it holds.\<close>

definition mutate :: "ref \<Rightarrow> data_frame \<Rightarrow> world \<Rightarrow> world" where
  "mutate r g w = w\<lparr>heap := (heap w)(r := g)\<rparr>"

text \<open>
  A provider that answers with the scenario bar under the labels the real provider uses,
  one that always fails with a rate-limit error, and an environment to call them in.
\<close>

definition scenario_provider :: "nat \<Rightarrow> string \<Rightarrow> string \<Rightarrow> string \<Rightarrow> rat \<times> response" where
  "scenario_provider n instr period interval =
     (1, Gives \<lparr>index_name = ''Datetime'',
                raw_columns = [''Open'', ''High'', ''Low'', ''Close'', ''Volume'', ''Dividends''],
                raw_rows = [scenario_bar]\<rparr>)"

definition rate_limited_provider :: "nat \<Rightarrow> string \<Rightarrow> string \<Rightarrow> string \<Rightarrow> rat \<times> response" where
  "rate_limited_provider n instr period interval = (1, Fails ''HTTP 429 Too Many Requests'')"

definition example_world :: world where
  "example_world =
     \<lparr>mono = 1000, utc_offset = -900, provider = scenario_provider, calls = 0,
      rand = (\<lambda>n. 1 / 2), draws = 0, heap = (\<lambda>r. \<lparr>columns = [], rows = []\<rparr>), next_ref = 0\<rparr>"

text \<open>The fetcher and the environment after one fetch from \<open>scenario_provider\<close>.\<close>

definition fetched_fetcher :: fetcher where
  "fetched_fetcher =
     \<lparr>instrument = ''NQ=F'',
      cache = Some \<lparr>data = 1, metadata = [(''period'', ''1d''), (''interval'', ''1m'')],
                    creation_time = 1001, hit_count = 0, validation_passed = False\<rparr>,
      cache_stats = \<lparr>hits = 0, misses = 1, invalidations = 0, evictions = 0\<rparr>,
      circuit_breaker = Some (new_circuit_breaker 3 60),
      rate_limit_backoff = 0, rate_limit_until = 0, last_fetch_time = Some 1001\<rparr>"

definition fetched_world :: world where
  "fetched_world =
     example_world\<lparr>mono := 1001, calls := 1,
                    heap := (heap example_world)(0 := scenario_frame, 1 := scenario_frame),
                    next_ref := 2\<rparr>"

subsection \<open>Conditions of the statements\<close>

text \<open>
  The hit condition in the specification's words: caching is enabled, the entry's age is
  below the TTL, and validation is not required or the entry passed it.
\<close>

definition spec_cache_hit :: "config \<Rightarrow> rat \<Rightarrow> fetcher \<Rightarrow> bool" where
  "spec_cache_hit cfg now f =
     (cache_enabled cfg \<and>
      (case cache f of
         None \<Rightarrow> False
       | Some e \<Rightarrow> now - creation_time e < cache_ttl cfg
                   \<and> (\<not> cache_validation cfg \<or> validation_passed e)))"

text \<open>The first gate of \<open>fetch_ohlc\<close> lets the call pass, and the fetcher as the gate leaves it.\<close>

definition breaker_allows :: "rat \<Rightarrow> fetcher \<Rightarrow> bool" where
  "breaker_allows now f =
     (case circuit_breaker f of None \<Rightarrow> True | Some cb \<Rightarrow> fst (can_attempt now cb))"

definition after_gate :: "rat \<Rightarrow> fetcher \<Rightarrow> fetcher" where
  "after_gate now f =
     f\<lparr>circuit_breaker := map_option (\<lambda>cb. snd (can_attempt now cb)) (circuit_breaker f)\<rparr>"

text \<open>A call of \<open>fetch_ohlc\<close> with \<open>use_cache\<close> reaches the cache and hits.\<close>

definition hit_path :: "config \<Rightarrow> fetcher \<Rightarrow> world \<Rightarrow> bool" where
  "hit_path cfg f w =
     (breaker_allows (mono w) f \<and> \<not> rate_limit_until f > mono w
      \<and> spec_cache_hit cfg (mono w) f)"

text \<open>No configured delay is negative.\<close>

definition nonneg_delays :: "config \<Rightarrow> bool" where
  "nonneg_delays cfg =
     (0 \<le> retry_delay cfg \<and> 0 \<le> retry_max_delay cfg
      \<and> 0 \<le> rate_limit_backoff_base cfg \<and> 0 \<le> rate_limit_max_backoff cfg)"

text \<open>
  A provider whose every call fails with a transport error, a caller that fetches \<open>n\<close>
  times in a row, and the fetcher after three such fetches.
\<close>

definition failing_world :: world where
  "failing_world =
     example_world\<lparr>provider := (\<lambda>n instr period interval. (1, Fails ''connection reset''))\<rparr>"

fun repeat_fetch :: "config \<Rightarrow> nat \<Rightarrow> fetcher \<Rightarrow> world \<Rightarrow> exn + (fetcher \<times> world)" where
  "repeat_fetch cfg 0 f w = Inr (f, w)"
| "repeat_fetch cfg (Suc n) f w =
     (case fetch_ohlc cfg ''1d'' ''1m'' True True f w of
        Inl e \<Rightarrow> Inl e
      | Inr (res, f1, w1) \<Rightarrow> repeat_fetch cfg n f1 w1)"

definition failed_fetcher :: fetcher where
  "failed_fetcher =
     \<lparr>instrument = ''NQ=F'', cache = None,
      cache_stats = \<lparr>hits = 0, misses = 3, invalidations = 0, evictions = 0\<rparr>,
      circuit_breaker = Some (fold record_failure [1009, 1018, 1027] (new_circuit_breaker 3 60)),
      rate_limit_backoff = 0, rate_limit_until = 0, last_fetch_time = None\<rparr>"

section \<open>Properties\<close>

subsection \<open>Backoff policy\<close>

lemma delay_plain:
  "\<not> retry_jitter_enabled cfg \<Longrightarrow> 1 \<le> a \<Longrightarrow>
   calculate_backoff_delay cfg j a False
     = min (retry_delay cfg * 2 ^ nat (a - 1)) (retry_max_delay cfg)"
  by (simp add: calculate_backoff_delay_def power_int_def)

text \<open>
  C5. With jitter disabled and a base delay that is not negative, the delay of an
  ordinary retry at the 1-based attempt \<open>a\<close> is
  \<open>min (retry_delay * 2 ^ (a - 1)) retry_max_delay\<close>; it does not decrease when the attempt
  number grows; it is \<open>retry_max_delay\<close> as soon as \<open>retry_delay * 2 ^ (a - 1)\<close> reaches
  it; and with a base of 2 and a cap of 8 the attempts 1, 2, 3 wait 2, 4, 8.
\<close>

theorem backoff_delay_without_jitter:
  assumes "\<not> retry_jitter_enabled cfg" and "0 \<le> retry_delay cfg"
  shows "(\<forall>a\<ge>1. calculate_backoff_delay cfg j a False
                  = min (retry_delay cfg * 2 ^ nat (a - 1)) (retry_max_delay cfg))
       \<and> (\<forall>a b. 1 \<le> a \<and> a \<le> b \<longrightarrow>
             calculate_backoff_delay cfg j a False \<le> calculate_backoff_delay cfg j b False)
       \<and> (\<forall>a\<ge>1. retry_max_delay cfg \<le> retry_delay cfg * 2 ^ nat (a - 1) \<longrightarrow>
             calculate_backoff_delay cfg j a False = retry_max_delay cfg)
       \<and> (retry_delay cfg = 2 \<and> retry_max_delay cfg = 8 \<longrightarrow>
             map (\<lambda>a. calculate_backoff_delay cfg j a False) [1, 2, 3] = [2, 4, 8])"
proof (intro conjI allI impI)
  fix a :: int assume "1 \<le> a"
  then show "calculate_backoff_delay cfg j a False
               = min (retry_delay cfg * 2 ^ nat (a - 1)) (retry_max_delay cfg)"
    using assms(1) by (rule delay_plain[rotated])
next
  fix a b :: int assume ab: "1 \<le> a \<and> a \<le> b"
  then have "nat (a - 1) \<le> nat (b - 1)" by linarith
  then have "(2::rat) ^ nat (a - 1) \<le> 2 ^ nat (b - 1)"
    by (simp add: power_increasing)
  then have "retry_delay cfg * 2 ^ nat (a - 1) \<le> retry_delay cfg * 2 ^ nat (b - 1)"
    using assms(2) by (rule mult_left_mono)
  then show "calculate_backoff_delay cfg j a False \<le> calculate_backoff_delay cfg j b False"
    using ab assms(1) by (simp add: delay_plain min.coboundedI1 min.coboundedI2 min_le_iff_disj)
next
  fix a :: int assume "1 \<le> a" "retry_max_delay cfg \<le> retry_delay cfg * 2 ^ nat (a - 1)"
  then show "calculate_backoff_delay cfg j a False = retry_max_delay cfg"
    using assms(1) by (simp add: delay_plain min_def)
next
  assume "retry_delay cfg = 2 \<and> retry_max_delay cfg = 8"
  then show "map (\<lambda>a. calculate_backoff_delay cfg j a False) [1, 2, 3] = [2, 4, 8]"
    using assms(1) by (simp add: delay_plain)
qed

theorem backoff_delay_without_jitter_witness:
  "calculate_backoff_delay example_config 0 3 False = 8
   \<and> calculate_backoff_delay example_config 0 2 False
       \<le> calculate_backoff_delay example_config 0 3 False
   \<and> map (\<lambda>a. calculate_backoff_delay example_config 0 a False) [1, 2, 3] = [2, 4, 8]"
  using backoff_delay_without_jitter [of example_config 0]
  by (simp add: example_config_def)

subsection \<open>Validator\<close>

lemma required_not_missing:
  "set required_cols \<subseteq> set (columns df) \<Longrightarrow>
   filter (\<lambda>col. col \<notin> set (columns df)) required_cols = []"
  by (auto simp: filter_empty_conv)

lemma required_missing:
  "\<not> set required_cols \<subseteq> set (columns df) \<Longrightarrow>
   filter (\<lambda>col. col \<notin> set (columns df)) required_cols \<noteq> []"
  by (auto simp: filter_empty_conv)

lemmas validator_defs =
  validate_ohlc_data_def new_report_def check_relationships_def check_nan_values_def
  check_volume_def check_duplicates_def check_freshness_def add_statistics_def add_error_def
  add_warning_def add_stat_def count_where_def timestamp_max_def is_inf_def Let_def

text \<open>
  C1, as the code has it. For a frame with the required columns whose only row has
  open 11, high 10, low 12 and close 11, the validator with the relational checks enabled
  reports \<open>is_valid = False\<close>; its first five error lines are the five relational errors,
  each with the count 1, and the "High < Low" line occurs exactly once.
\<close>

theorem validator_single_bar:
  assumes "validate_ohlc_relationships cfg"
      and "set required_cols \<subseteq> set (columns df)"
      and "rows df = [b]"
      and "open_price b = Fin 11" "high b = Fin 10" "low b = Fin 12" "close b = Fin 11"
  shows "is_valid (validate_ohlc_data cfg utcnow df) = False
       \<and> take 5 (errors (validate_ohlc_data cfg utcnow df))
           = [HighLtLow 1, HighLtOpen 1, HighLtClose 1, LowGtOpen 1, LowGtClose 1]
       \<and> count_list (errors (validate_ohlc_data cfg utcnow df)) (HighLtLow 1) = 1"
proof -
  have ne: "\<not> empty_frame df"
    using assms(2,3) by (auto simp: empty_frame_def required_cols_def)
  show ?thesis
    using assms(1,3-) ne
    by (simp add: validator_defs required_not_missing[OF assms(2)])
qed

theorem validator_single_bar_witness:
  "is_valid (validate_ohlc_data example_config 100
               \<lparr>columns = required_cols, rows = [scenario_bar]\<rparr>) = False
   \<and> take 5 (errors (validate_ohlc_data example_config 100
                       \<lparr>columns = required_cols, rows = [scenario_bar]\<rparr>))
       = [HighLtLow 1, HighLtOpen 1, HighLtClose 1, LowGtOpen 1, LowGtClose 1]"
  using validator_single_bar
          [of example_config "\<lparr>columns = required_cols, rows = [scenario_bar]\<rparr>" scenario_bar 100]
  by (simp add: example_config_def scenario_bar_def)

text \<open>
  The scenario as the specification states it fails: the bar breaks all five relations,
  so the report has five error lines, not the single "High < Low" line.
\<close>

theorem validator_single_bar_counterexample:
  "errors (validate_ohlc_data example_config 100
             \<lparr>columns = required_cols, rows = [scenario_bar]\<rparr>)
     = [HighLtLow 1, HighLtOpen 1, HighLtClose 1, LowGtOpen 1, LowGtClose 1]
   \<and> errors (validate_ohlc_data example_config 100
               \<lparr>columns = required_cols, rows = [scenario_bar]\<rparr>) \<noteq> [HighLtLow 1]"
  by (simp add: validator_defs example_config_def scenario_bar_def required_cols_def
        empty_frame_def)

lemma stats_add_error [simp]: "stats (add_error e r) = stats r"
  by (simp add: add_error_def)

lemma stats_add_warning [simp]: "stats (add_warning e r) = stats r"
  by (simp add: add_warning_def)

lemma stats_check_relationships [simp]: "stats (check_relationships df r) = stats r"
  by (simp add: check_relationships_def Let_def)

lemma stats_check_nan_values [simp]: "stats (check_nan_values df r) = stats r"
  by (simp add: check_nan_values_def Let_def)

lemma stats_check_volume [simp]: "stats (check_volume df r) = stats r"
  by (simp add: check_volume_def Let_def)

lemma stats_check_duplicates [simp]: "stats (check_duplicates df r) = stats r"
  by (simp add: check_duplicates_def Let_def)

lemma stats_check_freshness [simp]: "stats (check_freshness cfg u df r) = stats r"
  by (simp add: check_freshness_def Let_def split: option.splits)

lemma stats_add_statistics:
  "stats r = [] \<Longrightarrow> stats (add_statistics df r) =
     [(''row_count'', IntStat (length (rows df))),
      (''price_range'', RangeStat
         [(''open_min'', series_min (map open_price (rows df))),
          (''open_max'', series_max (map open_price (rows df))),
          (''close_min'', series_min (map close (rows df))),
          (''close_max'', series_max (map close (rows df)))]),
      (''volume_total'', VolumeStat (sum_list (map volume (rows df))))]"
  by (simp add: add_statistics_def add_stat_def Let_def)

text \<open>
  C3, as the code has it. For a frame that is not empty and has the six required columns
  the report's stats are the row count, the minimum and maximum of open and of close, and
  the total volume, whatever the checks found; for an empty frame and for a frame that
  lacks a required column the validator returns at the structural error and the stats stay
  empty.
\<close>

theorem validator_stats:
  "stats (validate_ohlc_data cfg utcnow df) =
     (if empty_frame df \<or> \<not> set required_cols \<subseteq> set (columns df) then []
      else [(''row_count'', IntStat (length (rows df))),
            (''price_range'', RangeStat
               [(''open_min'', series_min (map open_price (rows df))),
                (''open_max'', series_max (map open_price (rows df))),
                (''close_min'', series_min (map close (rows df))),
                (''close_max'', series_max (map close (rows df)))]),
            (''volume_total'', VolumeStat (sum_list (map volume (rows df))))])"
proof (cases "empty_frame df \<or> \<not> set required_cols \<subseteq> set (columns df)")
  case True
  show ?thesis
  proof (cases "empty_frame df")
    case True
    then show ?thesis by (simp add: validate_ohlc_data_def new_report_def Let_def)
  next
    case False
    with True have "filter (\<lambda>col. col \<notin> set (columns df)) required_cols \<noteq> []"
      by (simp add: required_missing)
    with True False show ?thesis by (simp add: validate_ohlc_data_def new_report_def Let_def)
  qed
next
  case False
  then have "filter (\<lambda>col. col \<notin> set (columns df)) required_cols = []"
    by (simp add: required_not_missing)
  with False show ?thesis
    by (simp add: validate_ohlc_data_def Let_def stats_add_statistics new_report_def)
qed

theorem validator_stats_witness:
  "\<not> is_valid (validate_ohlc_data example_config 100
                 \<lparr>columns = required_cols, rows = [scenario_bar]\<rparr>)
   \<and> stats (validate_ohlc_data example_config 100
              \<lparr>columns = required_cols, rows = [scenario_bar]\<rparr>)
     = [(''row_count'', IntStat 1),
        (''price_range'', RangeStat [(''open_min'', Fin 11), (''open_max'', Fin 11),
                                     (''close_min'', Fin 11), (''close_max'', Fin 11)]),
        (''volume_total'', VolumeStat 5)]"
proof -
  have "\<not> is_valid (validate_ohlc_data example_config 100
                      \<lparr>columns = required_cols, rows = [scenario_bar]\<rparr>)"
    by (simp add: validator_defs example_config_def scenario_bar_def required_cols_def
          empty_frame_def)
  then show ?thesis
    using validator_stats
            [of example_config 100 "\<lparr>columns = required_cols, rows = [scenario_bar]\<rparr>"]
    by (simp add: empty_frame_def required_cols_def scenario_bar_def series_min_def
          series_max_def)
qed

text \<open>
  The claim as stated fails on an empty frame and on a frame without the volume column:
  both reports have no stats.
\<close>

theorem validator_stats_counterexample:
  "stats (validate_ohlc_data example_config 100 \<lparr>columns = required_cols, rows = []\<rparr>) = []
   \<and> stats (validate_ohlc_data example_config 100
              \<lparr>columns = [''timestamp'', ''open'', ''high'', ''low'', ''close''],
               rows = [scenario_bar]\<rparr>) = []"
  by (simp add: validate_ohlc_data_def required_cols_def empty_frame_def new_report_def
        add_error_def Let_def)

subsection \<open>Circuit breaker\<close>

text \<open>
  C2, as the code has it. \<open>can_attempt\<close> is a third mutator of the breaker: when the
  breaker is open, the last failure time is set and not zero, and the reset interval has
  elapsed since it, the call sets \<open>failure_count\<close> to 0 and \<open>is_open\<close> to false; in every
  other case it leaves the breaker as it is. It never changes the threshold, the reset
  interval or the last failure time. The cache operations of the fetcher leave the
  breaker alone.
\<close>

theorem can_attempt_state:
  "snd (can_attempt now cb) =
     (if is_open cb \<and> (case last_failure_time cb of None \<Rightarrow> False
                        | Some t \<Rightarrow> t \<noteq> 0 \<and> reset_interval cb \<le> now - t)
      then cb\<lparr>failure_count := 0, is_open := False\<rparr> else cb)
   \<and> threshold (snd (can_attempt now cb)) = threshold cb
   \<and> reset_interval (snd (can_attempt now cb)) = reset_interval cb
   \<and> last_failure_time (snd (can_attempt now cb)) = last_failure_time cb
   \<and> circuit_breaker (clear_cache f) = circuit_breaker f
   \<and> circuit_breaker (snd (is_cache_valid cfg now f)) = circuit_breaker f
   \<and> circuit_breaker (snd (should_use_cache cfg now f)) = circuit_breaker f"
  by (auto simp: can_attempt_def clear_cache_def is_cache_valid_def should_use_cache_def
        count_miss_def count_hit_def Let_def split: option.splits)

lemma open_breaker_eq:
  "open_breaker = \<lparr>threshold = 3, reset_interval = 60, failure_count = 3,
                    last_failure_time = Some 10, is_open = True\<rparr>"
  by (simp add: open_breaker_def new_circuit_breaker_def record_failure_def Let_def)

theorem can_attempt_state_witness:
  "snd (can_attempt 100 open_breaker) = open_breaker\<lparr>failure_count := 0, is_open := False\<rparr>
   \<and> snd (can_attempt 50 open_breaker) = open_breaker"
  using can_attempt_state [of 100 open_breaker] can_attempt_state [of 50 open_breaker]
  by (simp add: open_breaker_eq)

text \<open>
  The claim as stated fails: on the breaker that three failures at 8, 9, 10 have opened,
  \<open>can_attempt\<close> at the reading 100 resets the failure count and closes the breaker.
\<close>

theorem can_attempt_state_counterexample:
  "failure_count open_breaker = 3 \<and> is_open open_breaker
   \<and> failure_count (snd (can_attempt 100 open_breaker)) = 0
   \<and> \<not> is_open (snd (can_attempt 100 open_breaker))"
  by (simp add: open_breaker_eq can_attempt_def)






subsection \<open>Cache\<close>

text \<open>
  C6. \<open>should_use_cache\<close> answers true exactly when caching is enabled, there is an entry
  whose age is below the TTL, and the validation policy is off or the entry passed
  validation. On a hit \<open>hits\<close> and the entry's \<open>hit_count\<close> grow by one and \<open>misses\<close> stays;
  on every other path \<open>misses\<close> grows by one, and \<open>hits\<close> and the entry stay.
\<close>

theorem should_use_cache_hit_iff:
  "(fst (should_use_cache cfg now f) \<longleftrightarrow> spec_cache_hit cfg now f)
   \<and> (fst (should_use_cache cfg now f) \<longrightarrow>
        hits (cache_stats (snd (should_use_cache cfg now f))) = hits (cache_stats f) + 1
        \<and> map_option hit_count (cache (snd (should_use_cache cfg now f)))
            = map_option (\<lambda>e. hit_count e + 1) (cache f)
        \<and> misses (cache_stats (snd (should_use_cache cfg now f))) = misses (cache_stats f))
   \<and> (\<not> fst (should_use_cache cfg now f) \<longrightarrow>
        misses (cache_stats (snd (should_use_cache cfg now f))) = misses (cache_stats f) + 1
        \<and> hits (cache_stats (snd (should_use_cache cfg now f))) = hits (cache_stats f)
        \<and> cache (snd (should_use_cache cfg now f)) = cache f)"
  by (auto simp: should_use_cache_def is_cache_valid_def spec_cache_hit_def count_miss_def
        count_hit_def Let_def split: option.splits)

theorem should_use_cache_hit_iff_witness:
  "fst (should_use_cache example_config 40 cached_fetcher)
   \<and> hits (cache_stats (snd (should_use_cache example_config 40 cached_fetcher))) = 1
   \<and> \<not> fst (should_use_cache example_config 51 cached_fetcher)
   \<and> misses (cache_stats (snd (should_use_cache example_config 51 cached_fetcher))) = 1"
  using should_use_cache_hit_iff [of example_config 40 cached_fetcher]
        should_use_cache_hit_iff [of example_config 51 cached_fetcher]
  by (simp add: spec_cache_hit_def example_config_def cached_fetcher_def new_fetcher_def
        new_cache_statistics_def)

lemma expired_check:
  assumes "cache f = Some e" "cache_ttl cfg \<le> t - creation_time e"
  shows "is_cache_valid cfg t f
           = (False, f\<lparr>cache_stats :=
                (cache_stats f)\<lparr>invalidations := invalidations (cache_stats f) + 1\<rparr>\<rparr>)"
  using assms by (simp add: is_cache_valid_def Let_def)

lemma expired_use:
  assumes "cache f = Some e" "cache_ttl cfg \<le> t - creation_time e" "cache_enabled cfg"
  shows "should_use_cache cfg t f
           = (False, f\<lparr>cache_stats :=
                (cache_stats f)\<lparr>invalidations := invalidations (cache_stats f) + 1,
                                misses := misses (cache_stats f) + 1\<rparr>\<rparr>)"
  using assms by (simp add: should_use_cache_def expired_check count_miss_def)

lemma validity_checks_expired:
  assumes "cache f = Some e" "\<forall>t\<in>set ts. cache_ttl cfg \<le> t - creation_time e"
  shows "validity_checks cfg ts f
          = f\<lparr>cache_stats :=
               (cache_stats f)\<lparr>invalidations := invalidations (cache_stats f) + length ts\<rparr>\<rparr>"
  using assms
proof (induction ts arbitrary: f)
  case Nil
  then show ?case by (simp add: validity_checks_def)
next
  case (Cons t ts)
  let ?g = "f\<lparr>cache_stats :=
              (cache_stats f)\<lparr>invalidations := invalidations (cache_stats f) + 1\<rparr>\<rparr>"
  have "validity_checks cfg (t # ts) f = validity_checks cfg ts ?g"
    using Cons.prems by (simp add: validity_checks_def expired_check)
  also have "\<dots> = ?g\<lparr>cache_stats :=
                 (cache_stats ?g)\<lparr>invalidations := invalidations (cache_stats ?g) + length ts\<rparr>\<rparr>"
    using Cons.prems by (intro Cons.IH) auto
  finally show ?case by simp
qed

lemma use_checks_expired:
  assumes "cache f = Some e" "\<forall>t\<in>set ts. cache_ttl cfg \<le> t - creation_time e"
      and "cache_enabled cfg"
  shows "use_checks cfg ts f
          = f\<lparr>cache_stats :=
               (cache_stats f)\<lparr>invalidations := invalidations (cache_stats f) + length ts,
                               misses := misses (cache_stats f) + length ts\<rparr>\<rparr>"
  using assms
proof (induction ts arbitrary: f)
  case Nil
  then show ?case by (simp add: use_checks_def)
next
  case (Cons t ts)
  let ?g = "f\<lparr>cache_stats :=
              (cache_stats f)\<lparr>invalidations := invalidations (cache_stats f) + 1,
                              misses := misses (cache_stats f) + 1\<rparr>\<rparr>"
  have "use_checks cfg (t # ts) f = use_checks cfg ts ?g"
    using Cons.prems by (simp add: use_checks_def expired_use)
  also have "\<dots> = ?g\<lparr>cache_stats :=
                 (cache_stats ?g)\<lparr>invalidations := invalidations (cache_stats ?g) + length ts,
                                  misses := misses (cache_stats ?g) + length ts\<rparr>\<rparr>"
    using Cons.prems by (intro Cons.IH) auto
  finally show ?case by simp
qed

text \<open>
  C9. While the entry stays in place, every validity check at a reading at which the
  entry's age has reached the TTL counts one more invalidation, so \<open>n\<close> such checks count
  \<open>n\<close>; asked through \<open>should_use_cache\<close> (caching enabled) each of them counts one more
  miss as well.
\<close>

theorem expired_checks_count:
  assumes "cache f = Some e" and "\<forall>t\<in>set ts. cache_ttl cfg \<le> t - creation_time e"
  shows "invalidations (cache_stats (validity_checks cfg ts f))
           = invalidations (cache_stats f) + length ts
       \<and> (cache_enabled cfg \<longrightarrow>
            invalidations (cache_stats (use_checks cfg ts f))
              = invalidations (cache_stats f) + length ts
            \<and> misses (cache_stats (use_checks cfg ts f)) = misses (cache_stats f) + length ts)"
  using assms by (simp add: validity_checks_expired use_checks_expired)

theorem expired_checks_count_witness:
  "invalidations (cache_stats (validity_checks example_config [51, 52, 60] cached_fetcher)) = 3
   \<and> invalidations (cache_stats (use_checks example_config [51, 52, 60] cached_fetcher)) = 3
   \<and> misses (cache_stats (use_checks example_config [51, 52, 60] cached_fetcher)) = 3"
  using expired_checks_count
          [of cached_fetcher "the (cache cached_fetcher)" "[51, 52, 60]" example_config]
  by (simp add: example_config_def cached_fetcher_def new_fetcher_def new_cache_statistics_def)

subsection \<open>fetch\_ohlc: no exception leaves it\<close>

lemma calculate_backoff_delay_nonneg:
  assumes "nonneg_delays cfg" "0 \<le> j"
  shows "0 \<le> calculate_backoff_delay cfg j attempt rl"
proof -
  have p: "0 \<le> power_int (2::rat) (attempt - 1)"
    by (rule less_imp_le) simp
  have "0 \<le> min (retry_delay cfg * power_int 2 (attempt - 1)) (retry_max_delay cfg)"
       "0 \<le> min (rate_limit_backoff_base cfg * power_int 2 (attempt - 1))
                 (rate_limit_max_backoff cfg)"
    using assms(1) p by (simp_all add: nonneg_delays_def)
  then show ?thesis
    using assms(2) by (simp add: calculate_backoff_delay_def Let_def)
qed

lemma backoff_delay_nonneg:
  assumes "nonneg_delays cfg" "\<forall>n. 0 \<le> rand w n"
  shows "0 \<le> fst (backoff_delay cfg attempt rl w)"
  using assms by (simp add: backoff_delay_def calculate_backoff_delay_nonneg)

lemma rand_backoff_delay [simp]: "rand (snd (backoff_delay cfg attempt rl w)) = rand w"
  by (simp add: backoff_delay_def)

lemma sleep_backoff:
  assumes "nonneg_delays cfg" "\<forall>n. 0 \<le> rand w n"
  shows "\<exists>w'. (case backoff_delay cfg attempt rl w of (delay, w1) \<Rightarrow> sleep delay w1) = Inr w'
              \<and> rand w' = rand w"
proof -
  obtain delay w1 where b: "backoff_delay cfg attempt rl w = (delay, w1)"
    by (cases "backoff_delay cfg attempt rl w")
  have "0 \<le> delay" "rand w1 = rand w"
    using backoff_delay_nonneg[OF assms, of attempt rl] rand_backoff_delay[of cfg attempt rl w]
    by (simp_all add: b)
  then show ?thesis by (simp add: b sleep_def)
qed

lemma rand_alloc [simp]: "rand (snd (alloc df w)) = rand w"
  by (simp add: alloc_def)

lemma rand_cache_entry_init [simp]: "rand (snd (cache_entry_init df md w)) = rand w"
  by (simp add: cache_entry_init_def copy_frame_def split_beta)

lemma rand_try_body: "rand (snd (snd (try_body cfg attempt period interval f w))) = rand w"
  by (simp add: try_body_def Let_def split_beta sleep_def
           split: response.splits sum.splits option.splits)

lemma except_clause_returns:
  assumes "nonneg_delays cfg" "\<forall>n. 0 \<le> rand w n"
  shows "\<exists>rl f' w'. except_clause cfg attempt is_rl e f w = Inr (rl, f', w') \<and> rand w' = rand w"
proof (cases e)
  case (Exception msg)
  show ?thesis
  proof (cases "attempt < retry_attempts cfg")
    case True
    obtain w' where
      "(case backoff_delay cfg attempt (is_rl \<or> rate_limit_message msg) w of
          (delay, w1) \<Rightarrow> sleep delay w1) = Inr w'" "rand w' = rand w"
      using sleep_backoff[OF assms] by blast
    then show ?thesis
      using True Exception by (simp add: except_clause_def Let_def split_beta)
  next
    case False
    then show ?thesis
      using Exception by (simp add: except_clause_def Let_def split_beta)
  qed
qed

lemma retry_loop_returns:
  assumes "nonneg_delays cfg" "\<forall>n. 0 \<le> rand w n"
  shows "\<exists>res. retry_loop cfg period interval validate is_rl f w attempts = Inr res"
  using assms(2)
proof (induction attempts arbitrary: is_rl f w)
  case Nil
  then show ?case by simp
next
  case (Cons attempt rest)
  obtain out f1 w1 where tb: "try_body cfg attempt period interval f w = (out, f1, w1)"
    by (cases "try_body cfg attempt period interval f w") auto
  have r1: "\<forall>n. 0 \<le> rand w1 n"
    using rand_try_body[of cfg attempt period interval f w] Cons.prems by (simp add: tb)
  show ?case
  proof (cases out)
    case (Return res)
    then show ?thesis by (simp add: tb)
  next
    case Continue
    then show ?thesis using Cons.IH[OF r1] by (simp add: tb)
  next
    case (Raise e)
    obtain rl f2 w2 where ec: "except_clause cfg attempt is_rl e f1 w1 = Inr (rl, f2, w2)"
      and "rand w2 = rand w1"
      using except_clause_returns[OF assms(1) r1] by blast
    then have "\<forall>n. 0 \<le> rand w2 n" using r1 by simp
    then show ?thesis using Cons.IH[of w2 rl f2] Raise by (simp add: tb ec)
  qed
qed

lemma should_use_cache_entry:
  "fst (should_use_cache cfg now f) \<Longrightarrow> cache (snd (should_use_cache cfg now f)) \<noteq> None"
  by (auto simp: should_use_cache_def is_cache_valid_def Let_def count_miss_def
           split: option.splits if_splits)

text \<open>
  C7. When no configured delay is negative and the jitter drawn is never negative (as
  \<^verbatim>\<open>random.uniform(0, 1)\<close> guarantees), \<open>fetch_ohlc\<close> returns for all arguments, every
  fetcher state and every provider: the result is never an exception but always the pair
  of an optional frame and a report. The provider's answers range over errors with any
  message (rate-limit messages among them) and frames of any shape (empty, without a
  timestamp label, without a required column, well-formed).
\<close>

theorem fetch_ohlc_never_raises:
  assumes "nonneg_delays cfg" and "\<forall>n. 0 \<le> rand w n"
  shows "\<exists>df report f' w'.
           fetch_ohlc cfg period interval use_cache validate f w = Inr ((df, report), f', w')"
proof -
  obtain blocked f1 where g: "(case circuit_breaker f of
               None \<Rightarrow> (False, f)
             | Some cb \<Rightarrow>
                 (let (ok, cb1) = can_attempt (mono w) cb
                  in (\<not> ok, f\<lparr>circuit_breaker := Some cb1\<rparr>))) = (blocked, f1)"
    by (cases "(case circuit_breaker f of
               None \<Rightarrow> (False, f)
             | Some cb \<Rightarrow>
                 (let (ok, cb1) = can_attempt (mono w) cb
                  in (\<not> ok, f\<lparr>circuit_breaker := Some cb1\<rparr>)))") auto
  obtain use f2 where
    u: "(if use_cache then should_use_cache cfg (mono w) f1 else (False, f1)) = (use, f2)"
    by (cases "(if use_cache then should_use_cache cfg (mono w) f1 else (False, f1))") auto
  have c: "cache f2 \<noteq> None" if "use"
    using that u should_use_cache_entry[of cfg "mono w" f1] by (auto split: if_splits)
  obtain res where
    l: "retry_loop cfg period interval validate False f2 w [1..retry_attempts cfg] = Inr res"
    using retry_loop_returns[OF assms] by blast
  show ?thesis
  proof (cases "blocked \<or> rate_limit_until f1 > mono w")
    case True
    then show ?thesis by (auto simp: fetch_ohlc_def g)
  next
    case False
    then have eq: "fetch_ohlc cfg period interval use_cache validate f w =
             (if use then
                (case cache f2 of
                   None \<Rightarrow> Inl (Exception ''AttributeError'')
                 | Some entry \<Rightarrow>
                     (let (df, w1) = copy_frame (data entry) w
                      in Inr ((Some df, new_report\<lparr>is_valid := validation_passed entry\<rparr>),
                              f2, w1)))
              else retry_loop cfg period interval validate False f2 w [1..retry_attempts cfg])"
      by (simp add: fetch_ohlc_def g u)
    show ?thesis
    proof (cases use)
      case True
      with c obtain entry where "cache f2 = Some entry" by auto
      with True show ?thesis by (simp add: eq split_beta)
    next
      case False
      then show ?thesis using l by (cases res) (simp add: eq)
    qed
  qed
qed

theorem fetch_ohlc_never_raises_witness:
  "\<exists>df report f' w'.
     fetch_ohlc example_config ''1d'' ''1m'' True True (new_fetcher example_config ''NQ=F'')
       (example_world\<lparr>provider := rate_limited_provider\<rparr>)
     = Inr ((df, report), f', w')"
proof -
  have "nonneg_delays example_config"
    by (simp add: nonneg_delays_def example_config_def)
  moreover have "\<forall>n. 0 \<le> rand (example_world\<lparr>provider := rate_limited_provider\<rparr>) n"
    by (simp add: example_world_def)
  ultimately show ?thesis by (rule fetch_ohlc_never_raises)
qed

subsection \<open>fetch\_ohlc: the cache path\<close>

lemma should_use_cache_hit:
  assumes "spec_cache_hit cfg now f" "cache f = Some e"
  shows "should_use_cache cfg now f
           = (True, (count_hit f)\<lparr>cache := Some (e\<lparr>hit_count := hit_count e + 1\<rparr>)\<rparr>)"
  using assms
  by (simp add: should_use_cache_def is_cache_valid_def spec_cache_hit_def Let_def)

lemma fetch_hit:
  assumes "hit_path cfg f w" "cache f = Some e"
  shows "fetch_ohlc cfg p i True v f w
          = Inr ((Some (next_ref w), new_report\<lparr>is_valid := validation_passed e\<rparr>),
                 (count_hit (after_gate (mono w) f))
                   \<lparr>cache := Some (e\<lparr>hit_count := hit_count e + 1\<rparr>)\<rparr>,
                 snd (copy_frame (data e) w))"
proof -
  let ?f1 = "after_gate (mono w) f"
  have hit: "spec_cache_hit cfg (mono w) ?f1" and c: "cache ?f1 = Some e"
    using assms by (simp_all add: hit_path_def spec_cache_hit_def after_gate_def)
  have rl: "\<not> rate_limit_until ?f1 > mono w"
    using assms by (simp add: hit_path_def after_gate_def)
  note u = should_use_cache_hit[OF hit c]
  show ?thesis
  proof (cases "circuit_breaker f")
    case None
    then have "?f1 = f" by (simp add: after_gate_def)
    with None u rl show ?thesis
      by (simp add: fetch_ohlc_def copy_frame_def alloc_def)
  next
    case (Some cb)
    then have ok: "fst (can_attempt (mono w) cb)"
      using assms(1) by (simp add: hit_path_def breaker_allows_def)
    have f1: "?f1 = f\<lparr>circuit_breaker := Some (snd (can_attempt (mono w) cb))\<rparr>"
      using Some by (simp add: after_gate_def)
    show ?thesis
      using Some ok u rl unfolding f1
      by (simp add: fetch_ohlc_def copy_frame_def alloc_def split_beta)
  qed
qed

text \<open>
  C10. Whenever \<open>fetch_ohlc\<close> serves from the cache, the report it returns has \<open>is_valid\<close>
  equal to the entry's \<open>validation_passed\<close> flag and no errors, no warnings and no stats,
  and the provider is not called; so for an entry that did not pass validation the
  caller receives \<open>is_valid = False\<close> with an empty error list.
\<close>

theorem cache_hit_report:
  assumes "hit_path cfg f w" and "cache f = Some e"
  shows "\<exists>df r f1 w1.
           fetch_ohlc cfg period interval True validate f w = Inr ((Some df, r), f1, w1)
           \<and> is_valid r = validation_passed e \<and> errors r = [] \<and> warnings r = []
           \<and> stats r = [] \<and> calls w1 = calls w"
  using fetch_hit[OF assms, of period interval validate]
  by (simp add: new_report_def copy_frame_def alloc_def)

lemma normalise_scenario:
  "normalise \<lparr>index_name = ''Datetime'',
              raw_columns = [''Open'', ''High'', ''Low'', ''Close'', ''Volume'', ''Dividends''],
              raw_rows = [scenario_bar]\<rparr> = Inr (Some scenario_frame)"
  by (simp add: normalise_def lower_def lower_char_def required_cols_def scenario_frame_def
        Let_def)

lemma validate_scenario:
  "validate_ohlc_data example_config 101 scenario_frame =
     \<lparr>is_valid = False,
      errors = [HighLtLow 1, HighLtOpen 1, HighLtClose 1, LowGtOpen 1, LowGtClose 1],
      warnings = [],
      stats = [(''row_count'', IntStat 1),
         (''price_range'', RangeStat
           [(''open_min'', Fin 11), (''open_max'', Fin 11),
            (''close_min'', Fin 11), (''close_max'', Fin 11)]),
         (''volume_total'', VolumeStat 5)]\<rparr>"
  by (simp add: validator_defs scenario_frame_def example_config_def scenario_bar_def
        required_cols_def empty_frame_def series_min_def series_max_def)

lemma attempts_3: "[1..3] = [1, 2, 3::int]"
  by (simp add: upto.simps)

text \<open>
  One fetch of a new fetcher from \<open>scenario_provider\<close>: the frame is returned as object 0
  with the failed validation's report, and its copy, object 1, is cached.
\<close>

lemma first_fetch:
  "fetch_ohlc example_config ''1d'' ''1m'' True True (new_fetcher example_config ''NQ=F'')
     example_world
   = Inr ((Some 0, validate_ohlc_data example_config 101 scenario_frame),
          fetched_fetcher, fetched_world)"
proof -
  have cfg: "circuit_breaker_enabled example_config" "cache_enabled example_config"
     "retry_attempts example_config = 3" "cache_ttl example_config = 50"
     "circuit_breaker_threshold example_config = 3"
     "circuit_breaker_reset_interval example_config = 60"
    by (simp_all add: example_config_def)
  show ?thesis
    by (simp add: fetch_ohlc_def should_use_cache_def is_cache_valid_def count_miss_def cfg
        new_fetcher_def new_circuit_breaker_def can_attempt_def new_cache_statistics_def
        attempts_3 try_body_def example_world_def scenario_provider_def raw_empty_def
        normalise_scenario alloc_def cache_entry_init_def copy_frame_def
        breaker_success_def record_success_def
        fetched_fetcher_def fetched_world_def Let_def validate_scenario numeral_2_eq_2)
qed

lemma hit_path_fetched:
  "0 \<le> t \<Longrightarrow> t < 1051 \<Longrightarrow>
   hit_path example_config fetched_fetcher (w\<lparr>mono := t\<rparr>)"
  by (simp add: hit_path_def breaker_allows_def spec_cache_hit_def fetched_fetcher_def
        example_config_def new_circuit_breaker_def can_attempt_def)

lemma cache_fetched:
  "cache fetched_fetcher = Some \<lparr>data = 1,
     metadata = [(''period'', ''1d''), (''interval'', ''1m'')],
     creation_time = 1001, hit_count = 0, validation_passed = False\<rparr>"
  by (simp add: fetched_fetcher_def)

theorem cache_hit_report_witness:
  "\<exists>df r f1 w1.
     fetch_ohlc example_config ''1d'' ''1m'' True True fetched_fetcher
       (fetched_world\<lparr>mono := 1040\<rparr>) = Inr ((Some df, r), f1, w1)
     \<and> is_valid r = False \<and> errors r = [] \<and> calls w1 = 1"
proof -
  have h: "hit_path example_config fetched_fetcher (fetched_world\<lparr>mono := 1040\<rparr>)"
    by (rule hit_path_fetched) simp_all
  obtain df r f1 w1 where
    "fetch_ohlc example_config ''1d'' ''1m'' True True fetched_fetcher
       (fetched_world\<lparr>mono := 1040\<rparr>) = Inr ((Some df, r), f1, w1)"
    "is_valid r = False" "errors r = []" "calls w1 = calls (fetched_world\<lparr>mono := 1040\<rparr>)"
    using cache_hit_report[OF h cache_fetched, of "''1d''" "''1m''" True] by auto
  moreover have "calls (fetched_world\<lparr>mono := 1040\<rparr>) = 1"
    by (simp add: fetched_world_def)
  ultimately show ?thesis by auto
qed

subsection \<open>fetch\_ohlc: the cache keeps and gives copies\<close>

lemma try_body_stores:
  assumes "try_body cfg attempt period interval f w = (Return (Some d, r), f1, w1)"
      and "cache_enabled cfg"
  shows "\<exists>e. cache f1 = Some e \<and> data e = Suc d \<and> heap w1 (Suc d) = heap w1 d
             \<and> next_ref w1 = Suc (Suc d) \<and> calls w1 = Suc (calls w)"
  using assms
  by (auto simp: try_body_def Let_def split_beta cache_entry_init_def copy_frame_def alloc_def
        breaker_success_def
      split: response.splits if_splits sum.splits option.splits)

lemma retry_loop_stores:
  assumes "retry_loop cfg period interval validate is_rl f w attempts = Inr ((Some d, r), f1, w1)"
      and "cache_enabled cfg"
  shows "\<exists>e. cache f1 = Some e \<and> data e = Suc d \<and> heap w1 (Suc d) = heap w1 d
             \<and> next_ref w1 = Suc (Suc d)"
  using assms(1)
proof (induction attempts arbitrary: is_rl f w)
  case Nil
  then show ?case by simp
next
  case (Cons attempt rest)
  obtain out f2 w2 where tb: "try_body cfg attempt period interval f w = (out, f2, w2)"
    by (cases "try_body cfg attempt period interval f w") auto
  show ?case
  proof (cases out)
    case (Return res)
    with Cons.prems tb
    have "try_body cfg attempt period interval f w = (Return (Some d, r), f1, w1)"
      by simp
    then show ?thesis using assms(2) try_body_stores by blast
  next
    case Continue
    with Cons.prems tb show ?thesis by (auto intro: Cons.IH)
  next
    case (Raise e)
    with Cons.prems tb show ?thesis
      by (auto split: sum.splits intro: Cons.IH)
  qed
qed

text \<open>A fetch that returned a frame and called the provider returned it from the loop.\<close>

lemma fetch_from_provider:
  assumes "fetch_ohlc cfg period interval use_cache validate f w = Inr ((Some d, r), f1, w1)"
      and "calls w1 \<noteq> calls w"
  shows "\<exists>f2. retry_loop cfg period interval validate False f2 w [1..retry_attempts cfg]
                = Inr ((Some d, r), f1, w1)"
  using assms
  by (auto simp: fetch_ohlc_def Let_def split_beta copy_frame_def alloc_def
           split: if_splits option.splits)

lemma hit_after_mutation:
  assumes "hit_path cfg f w" "cache f = Some e"
  shows "\<exists>d2 r2 f2 w3. fetch_ohlc cfg p i True v f w = Inr ((Some d2, r2), f2, w3)
                        \<and> heap w3 d2 = heap w (data e)"
  using fetch_hit[OF assms, of p i v] by (simp add: copy_frame_def alloc_def)

text \<open>
  C8. Retrieval: a fetch served from the cache (whose entry is an allocated object)
  returns a new object with the entry's content, and whatever the caller then writes into
  that object, a later fetch served from the cache again returns the original content.
  Storing: a fetch served by the provider, with caching enabled, returns one object and
  caches another with the same content, and whatever the caller then writes into the
  returned object, a later fetch served from the cache returns the original content.
\<close>

theorem cache_keeps_private_copies:
  "(hit_path cfg f w \<and> cache f = Some e \<and> data e < next_ref w \<longrightarrow>
      (\<exists>d1 r1 f1 w1.
          fetch_ohlc cfg p i True v f w = Inr ((Some d1, r1), f1, w1)
          \<and> d1 \<noteq> data e \<and> heap w1 d1 = heap w (data e)
          \<and> (\<forall>g t. hit_path cfg f1 ((mutate d1 g w1)\<lparr>mono := t\<rparr>) \<longrightarrow>
                (\<exists>d2 r2 f2 w3.
                    fetch_ohlc cfg p' i' True v' f1 ((mutate d1 g w1)\<lparr>mono := t\<rparr>)
                      = Inr ((Some d2, r2), f2, w3)
                    \<and> heap w3 d2 = heap w (data e)))))
   \<and> (cache_enabled cfg
        \<and> fetch_ohlc cfg p i uc v f w = Inr ((Some d, r), fa, wa) \<and> calls wa \<noteq> calls w \<longrightarrow>
      (\<exists>c. cache fa = Some c \<and> data c \<noteq> d \<and> heap wa (data c) = heap wa d
          \<and> (\<forall>g t. hit_path cfg fa ((mutate d g wa)\<lparr>mono := t\<rparr>) \<longrightarrow>
                (\<exists>d2 r2 f2 w3.
                    fetch_ohlc cfg p' i' True v' fa ((mutate d g wa)\<lparr>mono := t\<rparr>)
                      = Inr ((Some d2, r2), f2, w3)
                    \<and> heap w3 d2 = heap wa d))))"
proof (intro conjI impI)
  assume a: "hit_path cfg f w \<and> cache f = Some e \<and> data e < next_ref w"
  let ?f1 = "(count_hit (after_gate (mono w) f))
               \<lparr>cache := Some (e\<lparr>hit_count := hit_count e + 1\<rparr>)\<rparr>"
  let ?w1 = "snd (copy_frame (data e) w)"
  have fe: "fetch_ohlc cfg p i True v f w
              = Inr ((Some (next_ref w), new_report\<lparr>is_valid := validation_passed e\<rparr>), ?f1, ?w1)"
    using a by (intro fetch_hit) auto
  have ne: "next_ref w \<noteq> data e" using a by simp
  have h1: "heap ?w1 (next_ref w) = heap w (data e)"
    by (simp add: copy_frame_def alloc_def)
  have later: "\<exists>d2 r2 f2 w3.
                 fetch_ohlc cfg p' i' True v' ?f1 ((mutate (next_ref w) g ?w1)\<lparr>mono := t\<rparr>)
                   = Inr ((Some d2, r2), f2, w3)
                 \<and> heap w3 d2 = heap w (data e)"
    if hp: "hit_path cfg ?f1 ((mutate (next_ref w) g ?w1)\<lparr>mono := t\<rparr>)" for g t
  proof -
    have c1: "cache ?f1 = Some (e\<lparr>hit_count := hit_count e + 1\<rparr>)" by simp
    have "heap ((mutate (next_ref w) g ?w1)\<lparr>mono := t\<rparr>) (data (e\<lparr>hit_count := hit_count e + 1\<rparr>))
            = heap w (data e)"
      using ne by (simp add: mutate_def copy_frame_def alloc_def)
    then show ?thesis
      using hit_after_mutation[OF hp c1, of p' i' v'] by simp
  qed
  show "\<exists>d1 r1 f1 w1.
          fetch_ohlc cfg p i True v f w = Inr ((Some d1, r1), f1, w1)
          \<and> d1 \<noteq> data e \<and> heap w1 d1 = heap w (data e)
          \<and> (\<forall>g t. hit_path cfg f1 ((mutate d1 g w1)\<lparr>mono := t\<rparr>) \<longrightarrow>
                (\<exists>d2 r2 f2 w3.
                    fetch_ohlc cfg p' i' True v' f1 ((mutate d1 g w1)\<lparr>mono := t\<rparr>)
                      = Inr ((Some d2, r2), f2, w3)
                    \<and> heap w3 d2 = heap w (data e)))"
    using fe ne h1 later by blast
next
  assume a: "cache_enabled cfg
        \<and> fetch_ohlc cfg p i uc v f w = Inr ((Some d, r), fa, wa) \<and> calls wa \<noteq> calls w"
  then obtain f2 where
    "retry_loop cfg p i v False f2 w [1..retry_attempts cfg] = Inr ((Some d, r), fa, wa)"
    using fetch_from_provider by blast
  then obtain c where c: "cache fa = Some c" "data c = Suc d" "heap wa (Suc d) = heap wa d"
    using a retry_loop_stores by blast
  have later: "\<exists>d2 r2 f2 w3.
                 fetch_ohlc cfg p' i' True v' fa ((mutate d g wa)\<lparr>mono := t\<rparr>)
                   = Inr ((Some d2, r2), f2, w3)
                 \<and> heap w3 d2 = heap wa d"
    if hp: "hit_path cfg fa ((mutate d g wa)\<lparr>mono := t\<rparr>)" for g t
  proof -
    have "heap ((mutate d g wa)\<lparr>mono := t\<rparr>) (data c) = heap wa d"
      using c by (simp add: mutate_def)
    then show ?thesis
      using hit_after_mutation[OF hp c(1), of p' i' v'] by simp
  qed
  show "\<exists>c. cache fa = Some c \<and> data c \<noteq> d \<and> heap wa (data c) = heap wa d
          \<and> (\<forall>g t. hit_path cfg fa ((mutate d g wa)\<lparr>mono := t\<rparr>) \<longrightarrow>
                (\<exists>d2 r2 f2 w3.
                    fetch_ohlc cfg p' i' True v' fa ((mutate d g wa)\<lparr>mono := t\<rparr>)
                      = Inr ((Some d2, r2), f2, w3)
                    \<and> heap w3 d2 = heap wa d))"
    using c later by (intro exI[of _ c]) auto
qed

theorem cache_keeps_private_copies_witness:
  "(\<exists>d1 r1 f1 w1.
      fetch_ohlc example_config ''1d'' ''1m'' True True fetched_fetcher
        (fetched_world\<lparr>mono := 1040\<rparr>) = Inr ((Some d1, r1), f1, w1)
      \<and> d1 \<noteq> 1 \<and> heap w1 d1 = scenario_frame
      \<and> (\<exists>d2 r2 f2 w3.
            fetch_ohlc example_config ''1d'' ''1m'' True True f1
              ((mutate d1 \<lparr>columns = [], rows = []\<rparr> w1)\<lparr>mono := 1045\<rparr>)
              = Inr ((Some d2, r2), f2, w3)
            \<and> heap w3 d2 = scenario_frame))
   \<and> (\<exists>d2 r2 f2 w3.
        fetch_ohlc example_config ''1d'' ''1m'' True True fetched_fetcher
          ((mutate 0 \<lparr>columns = [], rows = []\<rparr> fetched_world)\<lparr>mono := 1040\<rparr>)
          = Inr ((Some d2, r2), f2, w3)
        \<and> heap w3 d2 = scenario_frame)"
proof
  let ?e = "\<lparr>data = 1, metadata = [(''period'', ''1d''), (''interval'', ''1m'')],
             creation_time = 1001, hit_count = 0, validation_passed = False\<rparr>"
  let ?w = "fetched_world\<lparr>mono := 1040\<rparr>"
  let ?g = "\<lparr>columns = [], rows = []\<rparr>"
  have h: "hit_path example_config fetched_fetcher ?w"
    by (rule hit_path_fetched) simp_all
  have a: "data ?e < next_ref ?w" by (simp add: fetched_world_def)
  have hw: "heap ?w (data ?e) = scenario_frame" by (simp add: fetched_world_def)
  obtain d1 r1 f1 w1 where
    f: "fetch_ohlc example_config ''1d'' ''1m'' True True fetched_fetcher ?w
          = Inr ((Some d1, r1), f1, w1)"
    and d: "d1 \<noteq> data ?e" "heap w1 d1 = heap ?w (data ?e)"
    and l: "\<forall>g t. hit_path example_config f1 ((mutate d1 g w1)\<lparr>mono := t\<rparr>) \<longrightarrow>
              (\<exists>d2 r2 f2 w3.
                  fetch_ohlc example_config ''1d'' ''1m'' True True f1
                    ((mutate d1 g w1)\<lparr>mono := t\<rparr>) = Inr ((Some d2, r2), f2, w3)
                  \<and> heap w3 d2 = heap ?w (data ?e))"
    using cache_keeps_private_copies
            [of example_config fetched_fetcher ?w ?e "''1d''" "''1m''" True "''1d''" "''1m''" True]
          h cache_fetched a
    by blast
  have "f1 = (count_hit (after_gate (mono ?w) fetched_fetcher))
               \<lparr>cache := Some (?e\<lparr>hit_count := hit_count ?e + 1\<rparr>)\<rparr>"
    using f fetch_hit[OF h cache_fetched, of "''1d''" "''1m''" True] by simp
  then have "hit_path example_config f1 ((mutate d1 ?g w1)\<lparr>mono := 1045\<rparr>)"
    by (simp add: hit_path_def breaker_allows_def spec_cache_hit_def fetched_fetcher_def
          example_config_def new_circuit_breaker_def can_attempt_def after_gate_def
          count_hit_def)
  with l have "\<exists>d2 r2 f2 w3.
                  fetch_ohlc example_config ''1d'' ''1m'' True True f1
                    ((mutate d1 ?g w1)\<lparr>mono := 1045\<rparr>) = Inr ((Some d2, r2), f2, w3)
                  \<and> heap w3 d2 = heap ?w (data ?e)"
    by blast
  with f d hw
  show "\<exists>d1 r1 f1 w1.
      fetch_ohlc example_config ''1d'' ''1m'' True True fetched_fetcher ?w
        = Inr ((Some d1, r1), f1, w1)
      \<and> d1 \<noteq> 1 \<and> heap w1 d1 = scenario_frame
      \<and> (\<exists>d2 r2 f2 w3.
            fetch_ohlc example_config ''1d'' ''1m'' True True f1
              ((mutate d1 ?g w1)\<lparr>mono := 1045\<rparr>) = Inr ((Some d2, r2), f2, w3)
            \<and> heap w3 d2 = scenario_frame)"
    by (intro exI[of _ d1] exI[of _ r1] exI[of _ f1] exI[of _ w1]) simp
next
  let ?g = "\<lparr>columns = [], rows = []\<rparr>"
  have ce: "cache_enabled example_config" by (simp add: example_config_def)
  have cl: "calls fetched_world \<noteq> calls example_world"
    by (simp add: fetched_world_def example_world_def)
  have h0: "heap fetched_world 0 = scenario_frame" by (simp add: fetched_world_def)
  have hp: "hit_path example_config fetched_fetcher ((mutate 0 ?g fetched_world)\<lparr>mono := 1040\<rparr>)"
    by (rule hit_path_fetched) simp_all
  from cache_keeps_private_copies
         [where cfg = example_config and f = "new_fetcher example_config ''NQ=F''"
            and w = example_world and p = "''1d''" and i = "''1m''" and v = True
            and p' = "''1d''" and i' = "''1m''" and v' = True and uc = True and d = 0
            and r = "validate_ohlc_data example_config 101 scenario_frame"
            and fa = fetched_fetcher and wa = fetched_world]
       ce first_fetch cl
  have "\<forall>g t. hit_path example_config fetched_fetcher ((mutate 0 g fetched_world)\<lparr>mono := t\<rparr>) \<longrightarrow>
          (\<exists>d2 r2 f2 w3.
              fetch_ohlc example_config ''1d'' ''1m'' True True fetched_fetcher
                ((mutate 0 g fetched_world)\<lparr>mono := t\<rparr>) = Inr ((Some d2, r2), f2, w3)
              \<and> heap w3 d2 = heap fetched_world 0)"
    by blast
  with hp h0
  show "\<exists>d2 r2 f2 w3.
        fetch_ohlc example_config ''1d'' ''1m'' True True fetched_fetcher
          ((mutate 0 ?g fetched_world)\<lparr>mono := 1040\<rparr>) = Inr ((Some d2, r2), f2, w3)
        \<and> heap w3 d2 = scenario_frame"
    by simp
qed

subsection \<open>Two runs of the model\<close>

lemma rate_limit_message_examples:
  "rate_limit_message ''HTTP 429 Too Many Requests''"
  "rate_limit_message ''Rate limited''"
  "\<not> rate_limit_message ''connection reset''"
  by code_simp+

text \<open>
  The condition on the delays is needed for a fetch to return: with a negative cap
  \<^verbatim>\<open>time.sleep\<close> raises ValueError inside the \<^verbatim>\<open>except\<close> clause of the first attempt, and
  that exception leaves \<open>fetch_ohlc\<close>. Such a configuration is not a valid one.
\<close>

lemma negative_delay_escapes:
  "fetch_ohlc (example_config\<lparr>rate_limit_max_backoff := -1\<rparr>) ''1d'' ''1m'' True True
     (new_fetcher example_config ''NQ=F'') (example_world\<lparr>provider := rate_limited_provider\<rparr>)
   = Inl (Exception ''sleep length must be non-negative'')"
  by (simp add: fetch_ohlc_def should_use_cache_def is_cache_valid_def count_miss_def
        new_fetcher_def new_circuit_breaker_def can_attempt_def new_cache_statistics_def
        example_config_def attempts_3 try_body_def example_world_def rate_limited_provider_def
        except_clause_def rate_limit_message_examples backoff_delay_def
        calculate_backoff_delay_def sleep_def Let_def)

text \<open>
  A fetch against the failing provider, on a closed breaker and without cache or
  cooldown: three provider calls, 9 seconds, one recorded failure.
\<close>

lemma failing_fetch:
  assumes "circuit_breaker f = Some cb" "\<not> is_open cb" "rate_limit_until f = 0" "cache f = None"
          "0 \<le> t"
  shows "fetch_ohlc example_config ''1d'' ''1m'' True True f
           (failing_world\<lparr>mono := t, calls := n\<rparr>)
         = Inr ((None, new_report),
                f\<lparr>cache_stats := (cache_stats f)\<lparr>misses := misses (cache_stats f) + 1\<rparr>,
                  circuit_breaker := Some (record_failure (t + 9) cb)\<rparr>,
                failing_world\<lparr>mono := t + 9, calls := n + 3\<rparr>)"
  using assms
  by (simp add: fetch_ohlc_def should_use_cache_def is_cache_valid_def count_miss_def
        can_attempt_def example_config_def attempts_3 try_body_def failing_world_def
        example_world_def except_clause_def rate_limit_message_examples backoff_delay_def
        calculate_backoff_delay_def sleep_def Let_def breaker_failure_def add.commute)

text \<open>
  The scenario of the threshold 3: three fetches in a row against the failing provider
  leave the fetcher with the breaker that three failures have opened, after nine provider
  calls; this is the state in which the fourth fetch is blocked.
\<close>

lemma three_failing_fetches:
  "repeat_fetch example_config 3 (new_fetcher example_config ''NQ=F'') failing_world
   = Inr (failed_fetcher, failing_world\<lparr>mono := 1027, calls := 9\<rparr>)"
proof -
  have w0: "failing_world = failing_world\<lparr>mono := 1000, calls := 0\<rparr>"
    by (simp add: failing_world_def example_world_def)
  have three: "(3::nat) = Suc (Suc (Suc 0))" by simp
  have cfg: "circuit_breaker_enabled example_config"
    "circuit_breaker_threshold example_config = 3"
    "circuit_breaker_reset_interval example_config = 60"
    by (simp_all add: example_config_def)
  show ?thesis
    apply (subst w0)
    apply (simp only: three repeat_fetch.simps)
    apply (simp add: failing_fetch new_fetcher_def cfg new_circuit_breaker_def
             new_cache_statistics_def record_failure_def failed_fetcher_def Let_def)
    done
qed

end
